theory Spec2Isabelle
  imports Main
begin

section \<open>The LangExtract bridge \<^verbatim>\<open>services/python/extract_structured.py\<close>\<close>

text \<open>
  The script imports the extraction library, parses four command-line options, calls
  \<^verbatim>\<open>lx.extract\<close> once and prints the result as JSON. Everything it touches that is
  not its own code is a parameter of the model:
  \<^item> whether \<^verbatim>\<open>import langextract\<close> and \<^verbatim>\<open>from dotenv import load_dotenv\<close> succeed;
  \<^item> the command line, as \<^verbatim>\<open>argparse\<close> scans it;
  \<^item> the library call \<^verbatim>\<open>lx.extract\<close>, a function from its keyword arguments to the
    object it returns or the exception it raises (it stands for the library in its
    whole environment: files, network, credentials).
  The result of a run is what the process wrote to its two streams, its exit status and
  the calls it made into the library.
\<close>

subsection \<open>Python values\<close>

text \<open>
  The objects the script reads are dynamically typed, so they are values of one datatype.
  \<open>PObj c attrs\<close> is an instance of a class named \<open>c\<close> with the instance attributes
  \<open>attrs\<close>; it defines neither \<^verbatim>\<open>__iter__\<close> nor \<^verbatim>\<open>__getattr__\<close>. Dictionary keys are
  hashable values. Floats are left out.
\<close>

datatype pykey = KNone | KBool bool | KInt int | KStr string | KTuple "pykey list"

datatype pyval =
    PNone
  | PBool bool
  | PInt int
  | PStr string
  | PList "pyval list"
  | PTuple "pyval list"
  | PDict "(pykey \<times> pyval) list"
  | PObj string "(string \<times> pyval) list"

text \<open>
  An instance of \<^verbatim>\<open>Exception\<close>: \<open>exc_type\<close> is \<^verbatim>\<open>type(e).__name__\<close> and \<open>exc_msg\<close> is
  \<^verbatim>\<open>str(e)\<close>. (\<^verbatim>\<open>KeyboardInterrupt\<close> and \<^verbatim>\<open>SystemExit\<close> are not instances of
  \<^verbatim>\<open>Exception\<close> and are not values of this type.)
\<close>

datatype py_exception = PyExc (exc_type: string) (exc_msg: string)

fun key_value :: "pykey \<Rightarrow> pyval" where
  "key_value KNone = PNone"
| "key_value (KBool b) = PBool b"
| "key_value (KInt i) = PInt i"
| "key_value (KStr s) = PStr s"
| "key_value (KTuple ks) = PTuple (map key_value ks)"

fun type_name :: "pyval \<Rightarrow> string" where
  "type_name PNone = ''NoneType''"
| "type_name (PBool b) = ''bool''"
| "type_name (PInt i) = ''int''"
| "type_name (PStr s) = ''str''"
| "type_name (PList xs) = ''list''"
| "type_name (PTuple xs) = ''tuple''"
| "type_name (PDict kvs) = ''dict''"
| "type_name (PObj c attrs) = c"

text \<open>A name between apostrophes, as Python's messages write it.\<close>

definition quoted :: "string \<Rightarrow> string" where
  "quoted s = CHR 0x27 # s @ [CHR 0x27]"

definition AttributeError :: "pyval \<Rightarrow> string \<Rightarrow> py_exception" where
  "AttributeError v name =
     PyExc ''AttributeError''
       (quoted (type_name v) @ '' object has no attribute '' @ quoted name)"

definition not_iterable :: "pyval \<Rightarrow> py_exception" where
  "not_iterable v = PyExc ''TypeError'' (quoted (type_name v) @ '' object is not iterable'')"

text \<open>
  \<^verbatim>\<open>obj.name\<close>. None of the built-in types modelled here has one of the ten attributes
  the script reads (\<^verbatim>\<open>extractions\<close>, \<^verbatim>\<open>model_id\<close>, \<^verbatim>\<open>usage_metadata\<close>,
  \<^verbatim>\<open>extraction_class\<close>, \<^verbatim>\<open>extraction_text\<close>, \<^verbatim>\<open>attributes\<close>, \<^verbatim>\<open>citations\<close>,
  \<^verbatim>\<open>start\<close>, \<^verbatim>\<open>end\<close>, \<^verbatim>\<open>text\<close>), so only a \<open>PObj\<close> can answer.
\<close>

fun getattr :: "pyval \<Rightarrow> string \<Rightarrow> py_exception + pyval" where
  "getattr (PObj c attrs) name =
     (case map_of attrs name of
        Some x \<Rightarrow> Inr x
      | None \<Rightarrow> Inl (AttributeError (PObj c attrs) name))"
| "getattr v name = Inl (AttributeError v name)"

text \<open>\<^verbatim>\<open>hasattr(obj, name)\<close>: whether \<^verbatim>\<open>getattr\<close> raises \<^verbatim>\<open>AttributeError\<close>.\<close>

definition hasattr :: "pyval \<Rightarrow> string \<Rightarrow> bool" where
  "hasattr v name = (case getattr v name of Inr x \<Rightarrow> True | Inl e \<Rightarrow> False)"

text \<open>
  What a \<^verbatim>\<open>for\<close> clause draws from a value: the elements of a list or tuple, the
  characters of a string, the keys of a dictionary; anything else raises \<^verbatim>\<open>TypeError\<close>.
\<close>

fun py_iter :: "pyval \<Rightarrow> py_exception + pyval list" where
  "py_iter (PList xs) = Inr xs"
| "py_iter (PTuple xs) = Inr xs"
| "py_iter (PStr s) = Inr (map (\<lambda>c. PStr [c]) s)"
| "py_iter (PDict kvs) = Inr (map (\<lambda>kv. key_value (fst kv)) kvs)"
| "py_iter v = Inl (not_iterable v)"

text \<open>
  A list comprehension \<^verbatim>\<open>[f(x) for x in xs]\<close> whose element expression may raise: the
  elements are computed left to right and the first exception ends the comprehension.
\<close>

fun comprehension :: "('a \<Rightarrow> py_exception + 'b) \<Rightarrow> 'a list \<Rightarrow> py_exception + 'b list" where
  "comprehension f [] = Inr []"
| "comprehension f (x # xs) =
     (case f x of
        Inl e \<Rightarrow> Inl e
      | Inr y \<Rightarrow> (case comprehension f xs of Inl e \<Rightarrow> Inl e | Inr ys \<Rightarrow> Inr (y # ys)))"

subsection \<open>\<^verbatim>\<open>json.dumps\<close>\<close>

datatype json =
    JNull
  | JBool bool
  | JNum int
  | JStr string
  | JArr "json list"
  | JObj "(string \<times> json) list"

text \<open>\<^verbatim>\<open>str(i)\<close> for an integer, used by the encoder for integer dictionary keys.\<close>

fun show_nat :: "nat \<Rightarrow> string" where
  "show_nat n =
     (if n < 10 then [''0123456789'' ! n]
      else show_nat (n div 10) @ [''0123456789'' ! (n mod 10)])"

declare show_nat.simps [simp del]

definition show_int :: "int \<Rightarrow> string" where
  "show_int i = (if i < 0 then ''-'' @ show_nat (nat (- i)) else show_nat (nat i))"

text \<open>The encoder's treatment of a dictionary key (\<^verbatim>\<open>skipkeys\<close> is off).\<close>

fun dict_key :: "pykey \<Rightarrow> py_exception + string" where
  "dict_key (KStr s) = Inr s"
| "dict_key (KBool b) = Inr (if b then ''true'' else ''false'')"
| "dict_key KNone = Inr ''null''"
| "dict_key (KInt i) = Inr (show_int i)"
| "dict_key (KTuple ks) =
     Inl (PyExc ''TypeError'' ''keys must be str, int, float, bool or None, not tuple'')"

text \<open>
  The JSON document \<^verbatim>\<open>json.dumps\<close> writes for a value, or the \<^verbatim>\<open>TypeError\<close> it raises
  at the first value, in document order, that has no JSON form.
\<close>

fun encode :: "pyval \<Rightarrow> py_exception + json"
  and encode_list :: "pyval list \<Rightarrow> py_exception + json list"
  and encode_dict :: "(pykey \<times> pyval) list \<Rightarrow> py_exception + (string \<times> json) list"
where
  "encode PNone = Inr JNull"
| "encode (PBool b) = Inr (JBool b)"
| "encode (PInt i) = Inr (JNum i)"
| "encode (PStr s) = Inr (JStr s)"
| "encode (PList xs) = (case encode_list xs of Inl e \<Rightarrow> Inl e | Inr js \<Rightarrow> Inr (JArr js))"
| "encode (PTuple xs) = (case encode_list xs of Inl e \<Rightarrow> Inl e | Inr js \<Rightarrow> Inr (JArr js))"
| "encode (PDict kvs) = (case encode_dict kvs of Inl e \<Rightarrow> Inl e | Inr ms \<Rightarrow> Inr (JObj ms))"
| "encode (PObj c attrs) =
     Inl (PyExc ''TypeError'' (''Object of type '' @ c @ '' is not JSON serializable''))"
| "encode_list [] = Inr []"
| "encode_list (x # xs) =
     (case encode x of
        Inl e \<Rightarrow> Inl e
      | Inr j \<Rightarrow> (case encode_list xs of Inl e \<Rightarrow> Inl e | Inr js \<Rightarrow> Inr (j # js)))"
| "encode_dict [] = Inr []"
| "encode_dict ((k, v) # kvs) =
     (case dict_key k of
        Inl e \<Rightarrow> Inl e
      | Inr s \<Rightarrow>
          (case encode v of
             Inl e \<Rightarrow> Inl e
           | Inr j \<Rightarrow> (case encode_dict kvs of Inl e \<Rightarrow> Inl e | Inr ms \<Rightarrow> Inr ((s, j) # ms))))"

text \<open>
  A piece of text written to a stream, by what produced it. \<open>JsonText indent j\<close> is the
  string \<^verbatim>\<open>json.dumps(v, indent=indent)\<close> returns for a value whose document is \<open>j\<close>
  (pretty-printed when \<open>indent\<close> is given); the other three are not JSON: the usage
  message and the help screen of \<^verbatim>\<open>argparse\<close>, and the interpreter's traceback of an
  exception nobody caught.
\<close>

datatype output_text =
    JsonText "nat option" json
  | UsageError string
  | HelpText
  | Traceback py_exception

definition json_dumps :: "nat option \<Rightarrow> pyval \<Rightarrow> py_exception + output_text" where
  "json_dumps indent v = (case encode v of Inl e \<Rightarrow> Inl e | Inr j \<Rightarrow> Inr (JsonText indent j))"

subsection \<open>The command line\<close>

text \<open>
  The command line after the scanner of \<^verbatim>\<open>argparse\<close> has read it, before the check of
  required options: \<open>Options\<close> gives each of the four options its value when it was
  supplied; \<open>Help\<close> is a command line on which the scanner met \<^verbatim>\<open>-h\<close> or \<^verbatim>\<open>--help\<close>;
  \<open>Malformed msg\<close> is one the scanner rejects with the message \<open>msg\<close> (an unrecognised
  argument, an option without its value).
\<close>

record options =
  opt_file :: "string option"
  opt_prompt :: "string option"
  opt_model :: "string option"
  opt_schema :: "string option"

datatype command_line = Options options | Help | Malformed string

text \<open>The namespace \<^verbatim>\<open>parser.parse_args()\<close> returns.\<close>

record namespace =
  args_file :: string
  args_prompt :: string
  args_model :: string
  args_schema :: "string option"

text \<open>
  How \<^verbatim>\<open>parse_args\<close> ends the process instead of returning: \<^verbatim>\<open>parser.error\<close> writes the
  usage message to standard error and exits with status 2; the help action writes the
  help screen to standard output and exits with status 0.
\<close>

datatype argparse_exit = ExitUsage string | ExitHelp

definition parse_args :: "command_line \<Rightarrow> argparse_exit + namespace" where
  "parse_args cl =
     (case cl of
        Help \<Rightarrow> Inl ExitHelp
      | Malformed msg \<Rightarrow> Inl (ExitUsage msg)
      | Options opts \<Rightarrow>
          (case (opt_file opts, opt_prompt opts) of
             (None, None) \<Rightarrow>
               Inl (ExitUsage ''the following arguments are required: --file, --prompt'')
           | (None, Some p) \<Rightarrow>
               Inl (ExitUsage ''the following arguments are required: --file'')
           | (Some f, None) \<Rightarrow>
               Inl (ExitUsage ''the following arguments are required: --prompt'')
           | (Some f, Some p) \<Rightarrow>
               Inr \<lparr>args_file = f, args_prompt = p,
                    args_model = (case opt_model opts of None \<Rightarrow> ''gemini-2.0-flash'' | Some m \<Rightarrow> m),
                    args_schema = opt_schema opts\<rparr>))"

subsection \<open>The library call\<close>

text \<open>The keyword arguments of \<^verbatim>\<open>lx.extract\<close>.\<close>

record extract_call =
  kw_text_or_documents :: string
  kw_prompt_description :: string
  kw_model_id :: string
  kw_examples :: pyval

text \<open>
  The two constructors of \<^verbatim>\<open>lx.data\<close> the script calls, each an object holding the
  keyword arguments it was given.
\<close>

definition lx_data_Extraction :: "string \<Rightarrow> string \<Rightarrow> pyval \<Rightarrow> pyval" where
  "lx_data_Extraction extraction_class extraction_text attributes =
     PObj ''Extraction''
       [(''extraction_class'', PStr extraction_class),
        (''extraction_text'', PStr extraction_text),
        (''attributes'', attributes)]"

definition lx_data_ExampleData :: "string \<Rightarrow> pyval list \<Rightarrow> pyval" where
  "lx_data_ExampleData txt extractions =
     PObj ''ExampleData'' [(''text'', PStr txt), (''extractions'', PList extractions)]"

definition examples :: pyval where
  "examples =
     PList
       [lx_data_ExampleData ''Alice lives in Wonderland.''
          [lx_data_Extraction ''entity'' ''Alice''
             (PDict [(KStr ''type'', PStr ''person''), (KStr ''context'', PStr ''protagonist'')])]]"

subsection \<open>A run of the script\<close>

text \<open>
  What a run depends on: the two imports, the command line and the library. \<open>lx_extract\<close>
  is the call \<^verbatim>\<open>lx.extract(...)\<close>: \<open>Inr\<close> the object it returns, \<open>Inl\<close> the exception it
  raises.
\<close>

record world =
  lx_importable :: bool
  dotenv_importable :: bool
  command_line :: command_line
  lx_extract :: "extract_call \<Rightarrow> py_exception + pyval"

text \<open>
  What a run leaves behind: the calls made into the library, the pieces of text written
  by the script to each stream, in order, and the exit status of the process.
\<close>

record outcome =
  calls :: "extract_call list"
  stdout :: "output_text list"
  stderr :: "output_text list"
  exit_status :: int

text \<open>An exception nobody catches: the interpreter prints its traceback and exits with 1.\<close>

definition uncaught :: "extract_call list \<Rightarrow> py_exception \<Rightarrow> outcome" where
  "uncaught cs e = \<lparr>calls = cs, stdout = [], stderr = [Traceback e], exit_status = 1\<rparr>"

text \<open>The entry of the output for one citation \<open>c\<close> (lines 79 to 83).\<close>

definition citation_entry :: "pyval \<Rightarrow> py_exception + pyval" where
  "citation_entry c =
     (case getattr c ''start'' of Inl x \<Rightarrow> Inl x | Inr s \<Rightarrow>
      (case getattr c ''end'' of Inl x \<Rightarrow> Inl x | Inr e \<Rightarrow>
      (case getattr c ''text'' of Inl x \<Rightarrow> Inl x | Inr t \<Rightarrow>
        Inr (PDict [(KStr ''start'', s), (KStr ''end'', e), (KStr ''text'', t)]))))"

text \<open>The value under \<^verbatim>\<open>"citations"\<close> for one extraction \<open>e\<close> (lines 78 to 84).\<close>

definition citations_of :: "pyval \<Rightarrow> py_exception + pyval" where
  "citations_of e =
     (if hasattr e ''citations'' then
        (case getattr e ''citations'' of Inl x \<Rightarrow> Inl x | Inr cs \<Rightarrow>
         (case py_iter cs of Inl x \<Rightarrow> Inl x | Inr cl \<Rightarrow>
         (case comprehension citation_entry cl of Inl x \<Rightarrow> Inl x | Inr entries \<Rightarrow>
           Inr (PList entries))))
      else Inr (PList []))"

text \<open>The entry of the output for one extraction \<open>e\<close> (lines 74 to 85).\<close>

definition extraction_entry :: "pyval \<Rightarrow> py_exception + pyval" where
  "extraction_entry e =
     (case getattr e ''extraction_class'' of Inl x \<Rightarrow> Inl x | Inr c \<Rightarrow>
      (case getattr e ''extraction_text'' of Inl x \<Rightarrow> Inl x | Inr t \<Rightarrow>
      (case getattr e ''attributes'' of Inl x \<Rightarrow> Inl x | Inr a \<Rightarrow>
      (case citations_of e of Inl x \<Rightarrow> Inl x | Inr cs \<Rightarrow>
        Inr (PDict [(KStr ''class'', c), (KStr ''text'', t),
                    (KStr ''attributes'', a), (KStr ''citations'', cs)])))))"

text \<open>The dictionary \<^verbatim>\<open>output\<close> built from the result of the call (lines 72 to 90).\<close>

definition build_output :: "pyval \<Rightarrow> py_exception + pyval" where
  "build_output result =
     (case getattr result ''extractions'' of Inl x \<Rightarrow> Inl x | Inr seq \<Rightarrow>
      (case py_iter seq of Inl x \<Rightarrow> Inl x | Inr es \<Rightarrow>
      (case comprehension extraction_entry es of Inl x \<Rightarrow> Inl x | Inr entries \<Rightarrow>
      (case getattr result ''model_id'' of Inl x \<Rightarrow> Inl x | Inr m \<Rightarrow>
      (case getattr result ''usage_metadata'' of Inl x \<Rightarrow> Inl x | Inr u \<Rightarrow>
        Inr (PDict [(KStr ''extractions'', PList entries),
                    (KStr ''model'', m), (KStr ''usage'', u)]))))))"

text \<open>The handler \<^verbatim>\<open>except Exception as e\<close> (lines 94 to 97).\<close>

definition except_handler :: "extract_call list \<Rightarrow> py_exception \<Rightarrow> outcome" where
  "except_handler cs e =
     (case json_dumps None
             (PDict [(KStr ''error'', PStr (exc_msg e)), (KStr ''type'', PStr (exc_type e))]) of
        Inl x \<Rightarrow> uncaught cs x
      | Inr error_msg \<Rightarrow>
          \<lparr>calls = cs, stdout = [], stderr = [error_msg], exit_status = 1\<rparr>)"

text \<open>The keyword arguments of the one call of \<^verbatim>\<open>lx.extract\<close> (lines 62 to 67).\<close>

definition extract_kwargs :: "namespace \<Rightarrow> extract_call" where
  "extract_kwargs args =
     \<lparr>kw_text_or_documents = args_file args,
      kw_prompt_description = args_prompt args,
      kw_model_id = args_model args,
      kw_examples = examples\<rparr>"

text \<open>
  The body of the \<^verbatim>\<open>try\<close> statement (lines 36 to 92) up to the string handed to
  \<^verbatim>\<open>print\<close>: the call, the dictionary \<^verbatim>\<open>output\<close>, \<^verbatim>\<open>json.dumps(output, indent=2)\<close>.
\<close>

definition try_body :: "world \<Rightarrow> namespace \<Rightarrow> py_exception + output_text" where
  "try_body w args =
     (case lx_extract w (extract_kwargs args) of Inl e \<Rightarrow> Inl e | Inr result \<Rightarrow>
      (case build_output result of Inl e \<Rightarrow> Inl e | Inr out \<Rightarrow>
        json_dumps (Some 2) out))"

text \<open>
  \<^verbatim>\<open>main()\<close>. The test of the two API-key variables (lines 30 to 33) has an empty
  body and is left out. The call is made as soon as the arguments are parsed, so it is
  in \<open>calls\<close> whether the body raises or not.
\<close>

definition main :: "world \<Rightarrow> outcome" where
  "main w =
     (case parse_args (command_line w) of
        Inl (ExitUsage msg) \<Rightarrow>
          \<lparr>calls = [], stdout = [], stderr = [UsageError msg], exit_status = 2\<rparr>
      | Inl ExitHelp \<Rightarrow>
          \<lparr>calls = [], stdout = [HelpText], stderr = [], exit_status = 0\<rparr>
      | Inr args \<Rightarrow>
          (case try_body w args of
             Inl e \<Rightarrow> except_handler [extract_kwargs args] e
           | Inr printed \<Rightarrow>
               \<lparr>calls = [extract_kwargs args], stdout = [printed], stderr = [],
                exit_status = 0\<rparr>))"

text \<open>
  The module from its first line: the guarded import of the library (lines 9 to 13),
  the import of \<^verbatim>\<open>dotenv\<close> (line 15), which nothing guards, then \<^verbatim>\<open>main()\<close>.
  \<^verbatim>\<open>load_dotenv()\<close> (line 18) only adds variables to the environment of the process;
  the script reads none of them, and the library's use of them is part of \<open>lx_extract\<close>.
\<close>

definition script :: "world \<Rightarrow> outcome" where
  "script w =
     (if \<not> lx_importable w then
        (case json_dumps None
                (PDict [(KStr ''error'',
                         PStr (''langextract not installed. Please run '' @
                               quoted ''pip install -r services/python/requirements.txt''))]) of
           Inl x \<Rightarrow> uncaught [] x
         | Inr msg \<Rightarrow> \<lparr>calls = [], stdout = [], stderr = [msg], exit_status = 1\<rparr>)
      else if \<not> dotenv_importable w then
        uncaught [] (PyExc ''ModuleNotFoundError'' (''No module named '' @ quoted ''dotenv''))
      else main w)"

text \<open>
  A run is successful when it ends with status 0 and has written something other than
  the help screen.
\<close>

definition successful :: "outcome \<Rightarrow> bool" where
  "successful r \<longleftrightarrow> exit_status r = 0 \<and> stdout r \<noteq> [HelpText]"

subsection \<open>Sample runs\<close>

text \<open>
  Objects a library could return and the runs they lead to; the closed theorems below
  evaluate the script on them.
\<close>

definition sample_citation :: "int \<Rightarrow> int \<Rightarrow> pyval" where
  "sample_citation s e =
     PObj ''Citation'' [(''start'', PInt s), (''end'', PInt e), (''text'', PStr ''Alice'')]"

definition sample_item :: "(string \<times> pyval) list \<Rightarrow> pyval" where
  "sample_item extra =
     PObj ''Extraction''
       ([(''extraction_class'', PStr ''entity''),
         (''extraction_text'', PStr ''Alice''),
         (''attributes'', PDict [(KStr ''type'', PStr ''person'')])] @ extra)"

definition item_cited :: pyval where
  "item_cited = sample_item [(''citations'', PList [sample_citation 0 5])]"

definition item_plain :: pyval where
  "item_plain = sample_item []"

definition item_none :: pyval where
  "item_none = sample_item [(''citations'', PNone)]"

definition item_reversed :: pyval where
  "item_reversed = sample_item [(''citations'', PList [sample_citation 5 3])]"

definition sample_result :: "pyval list \<Rightarrow> pyval" where
  "sample_result items =
     PObj ''ExtractionResult''
       [(''extractions'', PList items),
        (''model_id'', PStr ''gemini-2.0-flash''),
        (''usage_metadata'', PDict [(KStr ''total_tokens'', PInt 42)])]"

definition sample_options :: options where
  "sample_options =
     \<lparr>opt_file = Some ''missing.txt'', opt_prompt = Some ''x'',
      opt_model = None, opt_schema = None\<rparr>"

definition sample_world :: "py_exception + pyval \<Rightarrow> world" where
  "sample_world r =
     \<lparr>lx_importable = True, dotenv_importable = True,
      command_line = Options sample_options, lx_extract = (\<lambda>call. r)\<rparr>"

definition world_ok :: world where
  "world_ok = sample_world (Inr (sample_result [item_cited, item_plain, item_cited]))"


definition world_none :: world where
  "world_none = sample_world (Inr (sample_result [item_plain, item_none]))"

definition world_reversed :: world where
  "world_reversed = sample_world (Inr (sample_result [item_reversed]))"


definition world_no_library :: world where
  "world_no_library = (sample_world (Inr (sample_result [])))\<lparr>lx_importable := False\<rparr>"




section \<open>Properties\<close>

subsection \<open>Unfolding the run\<close>

text \<open>
  The definitions a concrete run unfolds to, then what a value \<open>Inr\<close> of each step of
  the serializer says about the steps before it.
\<close>

lemmas run_defs = script_def main_def try_body_def build_output_def extraction_entry_def citations_of_def
  citation_entry_def hasattr_def json_dumps_def except_handler_def uncaught_def parse_args_def extract_kwargs_def
lemmas sample_defs = sample_world_def sample_options_def sample_result_def sample_item_def sample_citation_def
  item_cited_def item_plain_def item_none_def item_reversed_def

lemma comprehension_Inr:
  "comprehension f xs = Inr ys \<Longrightarrow> list_all2 (\<lambda>x y. f x = Inr y) xs ys"
  by (induction xs arbitrary: ys) (auto split: sum.splits)

lemma comprehension_raises:
  "x \<in> set xs \<Longrightarrow> f x = Inl e \<Longrightarrow> \<exists>e'. comprehension f xs = Inl e'"
  by (induction xs) (auto split: sum.splits)

lemma encode_list_Inr:
  "encode_list xs = Inr js \<Longrightarrow> list_all2 (\<lambda>x j. encode x = Inr j) xs js"
  by (induction xs arbitrary: js) (auto split: sum.splits)

lemma except_handler_eq:
  "except_handler cs e =
     \<lparr>calls = cs, stdout = [],
      stderr = [JsonText None (JObj [(''error'', JStr (exc_msg e)), (''type'', JStr (exc_type e))])],
      exit_status = 1\<rparr>"
  by (simp add: except_handler_def json_dumps_def)

lemma build_output_Inr:
  assumes "build_output result = Inr out"
  shows "\<exists>seq items entries m u.
           getattr result ''extractions'' = Inr seq \<and> py_iter seq = Inr items \<and>
           comprehension extraction_entry items = Inr entries \<and>
           getattr result ''model_id'' = Inr m \<and> getattr result ''usage_metadata'' = Inr u \<and>
           out = PDict [(KStr ''extractions'', PList entries), (KStr ''model'', m), (KStr ''usage'', u)]"
  using assms unfolding build_output_def by (auto split: sum.splits)

lemma encode_output_Inr:
  assumes "encode (PDict [(KStr ''extractions'', PList entries), (KStr ''model'', m), (KStr ''usage'', u)]) = Inr j"
  shows "\<exists>js jm ju. encode_list entries = Inr js \<and> encode m = Inr jm \<and> encode u = Inr ju \<and>
           j = JObj [(''extractions'', JArr js), (''model'', jm), (''usage'', ju)]"
  using assms by (auto split: sum.splits)

lemma successful_script:
  assumes "successful (script w)"
  shows "\<exists>args result out j.
           lx_importable w \<and> dotenv_importable w \<and> parse_args (command_line w) = Inr args \<and>
           lx_extract w (extract_kwargs args) = Inr result \<and> build_output result = Inr out \<and>
           encode out = Inr j \<and>
           script w = \<lparr>calls = [extract_kwargs args], stdout = [JsonText (Some 2) j], stderr = [],
                       exit_status = 0\<rparr>"
  using assms
  unfolding successful_def script_def main_def try_body_def json_dumps_def uncaught_def
  by (auto simp: except_handler_eq split: if_splits sum.splits argparse_exit.splits)

lemma citation_entry_Inr:
  assumes "citation_entry c = Inr entry"
  shows "\<exists>s e t. getattr c ''start'' = Inr s \<and> getattr c ''end'' = Inr e \<and>
           getattr c ''text'' = Inr t \<and>
           entry = PDict [(KStr ''start'', s), (KStr ''end'', e), (KStr ''text'', t)]"
  using assms unfolding citation_entry_def by (auto split: sum.splits)

lemma citations_of_Inr:
  assumes "citations_of e = Inr cs"
  shows "(\<not> hasattr e ''citations'' \<and> cs = PList []) \<or>
         (\<exists>v cl entries. getattr e ''citations'' = Inr v \<and> py_iter v = Inr cl \<and>
            comprehension citation_entry cl = Inr entries \<and> cs = PList entries)"
  using assms unfolding citations_of_def by (auto split: sum.splits if_splits)

lemma extraction_entry_Inr:
  assumes "extraction_entry e = Inr entry"
  shows "\<exists>c t a cs. getattr e ''extraction_class'' = Inr c \<and>
           getattr e ''extraction_text'' = Inr t \<and> getattr e ''attributes'' = Inr a \<and>
           citations_of e = Inr (PList cs) \<and>
           entry = PDict [(KStr ''class'', c), (KStr ''text'', t),
                          (KStr ''attributes'', a), (KStr ''citations'', PList cs)]"
proof -
  from assms obtain c t a v where
    parts: "getattr e ''extraction_class'' = Inr c" "getattr e ''extraction_text'' = Inr t"
      "getattr e ''attributes'' = Inr a" "citations_of e = Inr v"
      "entry = PDict [(KStr ''class'', c), (KStr ''text'', t),
                      (KStr ''attributes'', a), (KStr ''citations'', v)]"
    unfolding extraction_entry_def by (auto split: sum.splits)
  from citations_of_Inr [OF parts(4)] obtain cs where "v = PList cs" by blast
  with parts show ?thesis by blast
qed

lemma encode_entry_Inr:
  assumes "encode (PDict [(KStr ''class'', c), (KStr ''text'', t),
                          (KStr ''attributes'', a), (KStr ''citations'', PList cs)]) = Inr j"
  shows "\<exists>jc jt ja jcs. encode c = Inr jc \<and> encode t = Inr jt \<and> encode a = Inr ja \<and>
           encode_list cs = Inr jcs \<and>
           j = JObj [(''class'', jc), (''text'', jt), (''attributes'', ja), (''citations'', JArr jcs)]"
  using assms by (auto split: sum.splits)

lemma encode_citation_Inr:
  assumes "encode (PDict [(KStr ''start'', s), (KStr ''end'', e), (KStr ''text'', t)]) = Inr j"
  shows "\<exists>js je jt. encode s = Inr js \<and> encode e = Inr je \<and> encode t = Inr jt \<and>
           j = JObj [(''start'', js), (''end'', je), (''text'', jt)]"
  using assms by (auto split: sum.splits)

lemma successful_run:
  assumes "successful (script w)"
  obtains args result seq items entries m u js jm ju where
    "lx_importable w" "dotenv_importable w" "parse_args (command_line w) = Inr args"
    "lx_extract w (extract_kwargs args) = Inr result"
    "getattr result ''extractions'' = Inr seq" "py_iter seq = Inr items"
    "comprehension extraction_entry items = Inr entries"
    "getattr result ''model_id'' = Inr m" "getattr result ''usage_metadata'' = Inr u"
    "encode_list entries = Inr js" "encode m = Inr jm" "encode u = Inr ju"
    "script w = \<lparr>calls = [extract_kwargs args],
                 stdout = [JsonText (Some 2)
                            (JObj [(''extractions'', JArr js), (''model'', jm), (''usage'', ju)])],
                 stderr = [], exit_status = 0\<rparr>"
proof -
  from successful_script [OF assms] obtain args result out j where
    a: "lx_importable w" "dotenv_importable w" "parse_args (command_line w) = Inr args"
      "lx_extract w (extract_kwargs args) = Inr result" "build_output result = Inr out"
      "encode out = Inr j"
      "script w = \<lparr>calls = [extract_kwargs args], stdout = [JsonText (Some 2) j], stderr = [],
                   exit_status = 0\<rparr>"
    by blast
  from build_output_Inr [OF a(5)] obtain seq items entries m u where
    b: "getattr result ''extractions'' = Inr seq" "py_iter seq = Inr items"
      "comprehension extraction_entry items = Inr entries"
      "getattr result ''model_id'' = Inr m" "getattr result ''usage_metadata'' = Inr u"
      "out = PDict [(KStr ''extractions'', PList entries), (KStr ''model'', m), (KStr ''usage'', u)]"
    by blast
  from a(6) b(6) encode_output_Inr obtain js jm ju where
    c: "encode_list entries = Inr js" "encode m = Inr jm" "encode u = Inr ju"
      "j = JObj [(''extractions'', JArr js), (''model'', jm), (''usage'', ju)]"
    by blast
  from a b c that show thesis by blast
qed

lemma try_body_Inr:
  assumes "try_body w args = Inr printed"
  shows "\<exists>result out j. lx_extract w (extract_kwargs args) = Inr result \<and>
           build_output result = Inr out \<and> encode out = Inr j \<and>
           printed = JsonText (Some 2) j"
  using assms unfolding try_body_def json_dumps_def by (auto split: sum.splits)

lemma encoded_entry_shape:
  assumes "comprehension extraction_entry items = Inr entries"
    and "encode_list entries = Inr js"
    and "j \<in> set js"
  shows "\<exists>c t a cs. j = JObj [(''class'', c), (''text'', t), (''attributes'', a),
                               (''citations'', JArr cs)]"
proof -
  have ie: "list_all2 (\<lambda>x y. extraction_entry x = Inr y) items entries"
    using assms(1) by (rule comprehension_Inr)
  have ej: "list_all2 (\<lambda>x j. encode x = Inr j) entries js"
    using assms(2) by (rule encode_list_Inr)
  from assms(3) obtain i where i: "i < length js" "j = js ! i"
    by (auto simp: in_set_conv_nth)
  from i ej have enc: "encode (entries ! i) = Inr j" and il: "i < length entries"
    by (simp_all add: list_all2_conv_all_nth)
  from il ie have "extraction_entry (items ! i) = Inr (entries ! i)"
    by (simp add: list_all2_conv_all_nth)
  from extraction_entry_Inr [OF this] obtain c t a cs where
    "entries ! i = PDict [(KStr ''class'', c), (KStr ''text'', t),
                          (KStr ''attributes'', a), (KStr ''citations'', PList cs)]"
    by blast
  with enc encode_entry_Inr show ?thesis by metis
qed


lemma citations_of_not_iterable:
  assumes "getattr e ''citations'' = Inr v" and "py_iter v = Inl x"
  shows "citations_of e = Inl x"
  using assms by (simp add: citations_of_def hasattr_def)

lemma extraction_entry_citations_raise:
  assumes "citations_of e = Inl x"
  shows "\<exists>x'. extraction_entry e = Inl x'"
  using assms unfolding extraction_entry_def by (auto split: sum.splits)

lemma stdout_json_successful:
  assumes "stdout (script w) = [JsonText ind j]"
  shows "successful (script w)"
  using assms
  unfolding successful_def script_def main_def json_dumps_def uncaught_def
  by (auto simp: except_handler_eq split: if_splits sum.splits argparse_exit.splits)

lemma printed_entry:
  assumes "calls (script w) = [call]" and "lx_extract w call = Inr result"
    and "getattr result ''extractions'' = Inr seq" and "py_iter seq = Inr items"
    and "stdout (script w) =
           [JsonText ind (JObj [(''extractions'', JArr js), (''model'', jm), (''usage'', ju)])]"
    and "i < length items"
  shows "i < length js \<and>
         (\<exists>entry. extraction_entry (items ! i) = Inr entry \<and> encode entry = Inr (js ! i))"
proof -
  have "successful (script w)"
    using assms(5) by (rule stdout_json_successful)
  then obtain args result' seq' items' entries js' jm' ju' where
    r: "lx_extract w (extract_kwargs args) = Inr result'"
      "getattr result' ''extractions'' = Inr seq'" "py_iter seq' = Inr items'"
      "comprehension extraction_entry items' = Inr entries"
      "encode_list entries = Inr js'"
      "script w = \<lparr>calls = [extract_kwargs args],
                   stdout = [JsonText (Some 2)
                              (JObj [(''extractions'', JArr js'), (''model'', jm'), (''usage'', ju')])],
                   stderr = [], exit_status = 0\<rparr>"
    by (rule successful_run)
  from r(6) assms(1) have "call = extract_kwargs args" by simp
  with r(1) assms(2) have "result' = result" by simp
  with r(2) assms(3) have "seq' = seq" by simp
  with r(3) assms(4) have items: "items' = items" by simp
  from r(6) assms(5) have js: "js' = js" by simp
  have ie: "list_all2 (\<lambda>x y. extraction_entry x = Inr y) items entries"
    using r(4) items comprehension_Inr by blast
  have ej: "list_all2 (\<lambda>x j. encode x = Inr j) entries js"
    using r(5) js encode_list_Inr by blast
  from ie ej assms(6) have "i < length js"
    by (simp add: list_all2_lengthD)
  moreover from ie assms(6) have "extraction_entry (items ! i) = Inr (entries ! i)"
    by (simp add: list_all2_conv_all_nth)
  moreover from ie ej assms(6) have "encode (entries ! i) = Inr (js ! i)"
    by (simp add: list_all2_conv_all_nth)
  ultimately show ?thesis by blast
qed

lemma encoded_citations:
  assumes "comprehension citation_entry cits = Inr entries"
    and "encode_list entries = Inr jcs"
  shows "length jcs = length cits \<and>
         (\<forall>k<length cits. \<exists>s e t sj ej tj.
            getattr (cits ! k) ''start'' = Inr s \<and> getattr (cits ! k) ''end'' = Inr e \<and>
            getattr (cits ! k) ''text'' = Inr t \<and>
            encode s = Inr sj \<and> encode e = Inr ej \<and> encode t = Inr tj \<and>
            jcs ! k = JObj [(''start'', sj), (''end'', ej), (''text'', tj)])"
proof -
  have ce: "list_all2 (\<lambda>x y. citation_entry x = Inr y) cits entries"
    using assms(1) by (rule comprehension_Inr)
  have ej: "list_all2 (\<lambda>x j. encode x = Inr j) entries jcs"
    using assms(2) by (rule encode_list_Inr)
  have len: "length jcs = length cits"
    using ce ej by (simp add: list_all2_lengthD)
  have each: "\<exists>s e t sj ej tj.
            getattr (cits ! k) ''start'' = Inr s \<and> getattr (cits ! k) ''end'' = Inr e \<and>
            getattr (cits ! k) ''text'' = Inr t \<and>
            encode s = Inr sj \<and> encode e = Inr ej \<and> encode t = Inr tj \<and>
            jcs ! k = JObj [(''start'', sj), (''end'', ej), (''text'', tj)]"
    if k: "k < length cits" for k
  proof -
    from k ce have "citation_entry (cits ! k) = Inr (entries ! k)"
      by (simp add: list_all2_conv_all_nth)
    from citation_entry_Inr [OF this] obtain s e t where
      g: "getattr (cits ! k) ''start'' = Inr s" "getattr (cits ! k) ''end'' = Inr e"
        "getattr (cits ! k) ''text'' = Inr t"
        "entries ! k = PDict [(KStr ''start'', s), (KStr ''end'', e), (KStr ''text'', t)]"
      by blast
    from k ce ej have "encode (entries ! k) = Inr (jcs ! k)"
      by (simp add: list_all2_conv_all_nth)
    with g(4) have
      "encode (PDict [(KStr ''start'', s), (KStr ''end'', e), (KStr ''text'', t)]) = Inr (jcs ! k)"
      by simp
    from encode_citation_Inr [OF this] g(1-3) show ?thesis by blast
  qed
  from len each show ?thesis by blast
qed

text \<open>The first sample run, evaluated.\<close>

lemma world_ok_run:
  "script world_ok =
     \<lparr>calls = [extract_kwargs \<lparr>args_file = ''missing.txt'', args_prompt = ''x'',
                                args_model = ''gemini-2.0-flash'', args_schema = None\<rparr>],
      stdout =
        [JsonText (Some 2)
           (JObj
              [(''extractions'',
                JArr
                  [JObj [(''class'', JStr ''entity''), (''text'', JStr ''Alice''),
                         (''attributes'', JObj [(''type'', JStr ''person'')]),
                         (''citations'',
                          JArr [JObj [(''start'', JNum 0), (''end'', JNum 5),
                                      (''text'', JStr ''Alice'')]])],
                   JObj [(''class'', JStr ''entity''), (''text'', JStr ''Alice''),
                         (''attributes'', JObj [(''type'', JStr ''person'')]),
                         (''citations'', JArr [])],
                   JObj [(''class'', JStr ''entity''), (''text'', JStr ''Alice''),
                         (''attributes'', JObj [(''type'', JStr ''person'')]),
                         (''citations'',
                          JArr [JObj [(''start'', JNum 0), (''end'', JNum 5),
                                      (''text'', JStr ''Alice'')]])]]),
               (''model'', JStr ''gemini-2.0-flash''),
               (''usage'', JObj [(''total_tokens'', JNum 42)])])],
      stderr = [], exit_status = 0\<rparr>"
  by (simp add: run_defs sample_defs world_ok_def)

subsection \<open>The output of a successful run\<close>

text \<open>
  Claim C1. In every successful run the \<^verbatim>\<open>extractions\<close> array printed on standard
  output has as many entries as the sequence \<^verbatim>\<open>result.extractions\<close> the library
  returned, and its \<open>i\<close>-th entry is the JSON form of the entry built from the \<open>i\<close>-th
  item: nothing is reordered, dropped or merged.
\<close>

theorem extractions_same_length_and_order:
  assumes "successful (script w)"
  shows "\<exists>call result seq items js jm ju.
           calls (script w) = [call] \<and> lx_extract w call = Inr result \<and>
           getattr result ''extractions'' = Inr seq \<and> py_iter seq = Inr items \<and>
           stdout (script w) =
             [JsonText (Some 2)
                (JObj [(''extractions'', JArr js), (''model'', jm), (''usage'', ju)])] \<and>
           length js = length items \<and>
           (\<forall>i<length items. \<exists>entry. extraction_entry (items ! i) = Inr entry \<and>
                                    encode entry = Inr (js ! i))"
proof -
  from assms obtain args result seq items entries js jm ju where
    r: "lx_extract w (extract_kwargs args) = Inr result"
      "getattr result ''extractions'' = Inr seq" "py_iter seq = Inr items"
      "comprehension extraction_entry items = Inr entries"
      "encode_list entries = Inr js"
      "script w = \<lparr>calls = [extract_kwargs args],
                   stdout = [JsonText (Some 2)
                              (JObj [(''extractions'', JArr js), (''model'', jm), (''usage'', ju)])],
                   stderr = [], exit_status = 0\<rparr>"
    by (rule successful_run)
  have ie: "list_all2 (\<lambda>x y. extraction_entry x = Inr y) items entries"
    using r(4) by (rule comprehension_Inr)
  have ej: "list_all2 (\<lambda>x j. encode x = Inr j) entries js"
    using r(5) by (rule encode_list_Inr)
  have len: "length js = length items"
    using ie ej by (simp add: list_all2_lengthD)
  have each: "\<exists>entry. extraction_entry (items ! i) = Inr entry \<and> encode entry = Inr (js ! i)"
    if "i < length items" for i
  proof -
    from that ie have "extraction_entry (items ! i) = Inr (entries ! i)"
      by (simp add: list_all2_conv_all_nth)
    moreover from that ie ej have "encode (entries ! i) = Inr (js ! i)"
      by (simp add: list_all2_conv_all_nth)
    ultimately show ?thesis by blast
  qed
  have "calls (script w) = [extract_kwargs args]"
    and "stdout (script w) =
      [JsonText (Some 2) (JObj [(''extractions'', JArr js), (''model'', jm), (''usage'', ju)])]"
    by (simp_all add: r(6))
  with r(1-3) len each show ?thesis by blast
qed

theorem extractions_same_length_and_order_witness:
  "successful (script world_ok) \<and>
   (\<exists>call result seq items js jm ju.
      calls (script world_ok) = [call] \<and> lx_extract world_ok call = Inr result \<and>
      getattr result ''extractions'' = Inr seq \<and> py_iter seq = Inr items \<and>
      stdout (script world_ok) =
        [JsonText (Some 2)
           (JObj [(''extractions'', JArr js), (''model'', jm), (''usage'', ju)])] \<and>
      length js = length items \<and>
      (\<forall>i<length items. \<exists>entry. extraction_entry (items ! i) = Inr entry \<and>
                               encode entry = Inr (js ! i)))"
proof -
  have ok: "successful (script world_ok)"
    by (simp add: successful_def run_defs sample_defs world_ok_def)
  from ok extractions_same_length_and_order [OF ok] show ?thesis by (rule conjI)
qed

text \<open>
  Claim C2. When the imports succeed, the arguments parse and the body of the \<^verbatim>\<open>try\<close>
  statement raises nothing, the process writes one pretty-printed (\<^verbatim>\<open>indent=2\<close>) JSON
  object to standard output, nothing to standard error, and exits with status 0. The
  object has exactly the fields \<^verbatim>\<open>extractions\<close>, \<^verbatim>\<open>model\<close> and \<^verbatim>\<open>usage\<close>; every entry
  of \<^verbatim>\<open>extractions\<close> has exactly the fields \<^verbatim>\<open>class\<close>, \<^verbatim>\<open>text\<close>, \<^verbatim>\<open>attributes\<close> and
  \<^verbatim>\<open>citations\<close> (an array); \<^verbatim>\<open>model\<close> is the JSON form of \<^verbatim>\<open>result.model_id\<close> (the
  same string when it is a string) and \<^verbatim>\<open>usage\<close> the JSON form of
  \<^verbatim>\<open>result.usage_metadata\<close>.
\<close>

theorem success_output_shape:
  assumes "lx_importable w" and "dotenv_importable w"
    and "parse_args (command_line w) = Inr args"
    and "try_body w args = Inr printed"
  shows "script w = \<lparr>calls = [extract_kwargs args], stdout = [printed], stderr = [],
                     exit_status = 0\<rparr> \<and>
         (\<exists>result m u js jm ju.
            lx_extract w (extract_kwargs args) = Inr result \<and>
            getattr result ''model_id'' = Inr m \<and> encode m = Inr jm \<and>
            (\<forall>s. m = PStr s \<longrightarrow> jm = JStr s) \<and>
            getattr result ''usage_metadata'' = Inr u \<and> encode u = Inr ju \<and>
            printed = JsonText (Some 2)
                        (JObj [(''extractions'', JArr js), (''model'', jm), (''usage'', ju)]) \<and>
            (\<forall>j\<in>set js. \<exists>c t a cs.
               j = JObj [(''class'', c), (''text'', t), (''attributes'', a),
                         (''citations'', JArr cs)]))"
proof
  show "script w = \<lparr>calls = [extract_kwargs args], stdout = [printed], stderr = [],
                     exit_status = 0\<rparr>"
    using assms by (simp add: script_def main_def)
next
  from try_body_Inr [OF assms(4)] obtain result out j where
    a: "lx_extract w (extract_kwargs args) = Inr result" "build_output result = Inr out"
      "encode out = Inr j" "printed = JsonText (Some 2) j"
    by blast
  from build_output_Inr [OF a(2)] obtain items entries m u where
    b: "comprehension extraction_entry items = Inr entries"
      "getattr result ''model_id'' = Inr m" "getattr result ''usage_metadata'' = Inr u"
      "out = PDict [(KStr ''extractions'', PList entries), (KStr ''model'', m), (KStr ''usage'', u)]"
    by blast
  from a(3) b(4) encode_output_Inr obtain js jm ju where
    c: "encode_list entries = Inr js" "encode m = Inr jm" "encode u = Inr ju"
      "j = JObj [(''extractions'', JArr js), (''model'', jm), (''usage'', ju)]"
    by blast
  have str: "\<forall>s. m = PStr s \<longrightarrow> jm = JStr s"
    using c(2) by auto
  have shape: "\<forall>j\<in>set js. \<exists>c t a cs.
      j = JObj [(''class'', c), (''text'', t), (''attributes'', a), (''citations'', JArr cs)]"
    using encoded_entry_shape [OF b(1) c(1)] by blast
  from a(1,4) b(2,3) c(2,3,4) str shape
  show "\<exists>result m u js jm ju.
            lx_extract w (extract_kwargs args) = Inr result \<and>
            getattr result ''model_id'' = Inr m \<and> encode m = Inr jm \<and>
            (\<forall>s. m = PStr s \<longrightarrow> jm = JStr s) \<and>
            getattr result ''usage_metadata'' = Inr u \<and> encode u = Inr ju \<and>
            printed = JsonText (Some 2)
                        (JObj [(''extractions'', JArr js), (''model'', jm), (''usage'', ju)]) \<and>
            (\<forall>j\<in>set js. \<exists>c t a cs.
               j = JObj [(''class'', c), (''text'', t), (''attributes'', a),
                         (''citations'', JArr cs)])"
    by blast
qed

theorem success_output_shape_witness:
  "script world_ok =
     \<lparr>calls = [extract_kwargs \<lparr>args_file = ''missing.txt'', args_prompt = ''x'',
                                args_model = ''gemini-2.0-flash'', args_schema = None\<rparr>],
      stdout =
        [JsonText (Some 2)
           (JObj
              [(''extractions'',
                JArr
                  [JObj [(''class'', JStr ''entity''), (''text'', JStr ''Alice''),
                         (''attributes'', JObj [(''type'', JStr ''person'')]),
                         (''citations'',
                          JArr [JObj [(''start'', JNum 0), (''end'', JNum 5),
                                      (''text'', JStr ''Alice'')]])],
                   JObj [(''class'', JStr ''entity''), (''text'', JStr ''Alice''),
                         (''attributes'', JObj [(''type'', JStr ''person'')]),
                         (''citations'', JArr [])],
                   JObj [(''class'', JStr ''entity''), (''text'', JStr ''Alice''),
                         (''attributes'', JObj [(''type'', JStr ''person'')]),
                         (''citations'',
                          JArr [JObj [(''start'', JNum 0), (''end'', JNum 5),
                                      (''text'', JStr ''Alice'')]])]]),
               (''model'', JStr ''gemini-2.0-flash''),
               (''usage'', JObj [(''total_tokens'', JNum 42)])])],
      stderr = [], exit_status = 0\<rparr>"
proof -
  let ?args = "\<lparr>args_file = ''missing.txt'', args_prompt = ''x'',
                 args_model = ''gemini-2.0-flash'', args_schema = None\<rparr>"
  have h1: "lx_importable world_ok" and h2: "dotenv_importable world_ok"
    by (simp_all add: world_ok_def sample_world_def)
  have h3: "parse_args (command_line world_ok) = Inr ?args"
    by (simp add: world_ok_def sample_world_def sample_options_def parse_args_def)
  have h4: "try_body world_ok ?args =
    Inr (JsonText (Some 2)
           (JObj
              [(''extractions'',
                JArr
                  [JObj [(''class'', JStr ''entity''), (''text'', JStr ''Alice''),
                         (''attributes'', JObj [(''type'', JStr ''person'')]),
                         (''citations'',
                          JArr [JObj [(''start'', JNum 0), (''end'', JNum 5),
                                      (''text'', JStr ''Alice'')]])],
                   JObj [(''class'', JStr ''entity''), (''text'', JStr ''Alice''),
                         (''attributes'', JObj [(''type'', JStr ''person'')]),
                         (''citations'', JArr [])],
                   JObj [(''class'', JStr ''entity''), (''text'', JStr ''Alice''),
                         (''attributes'', JObj [(''type'', JStr ''person'')]),
                         (''citations'',
                          JArr [JObj [(''start'', JNum 0), (''end'', JNum 5),
                                      (''text'', JStr ''Alice'')]])]]),
               (''model'', JStr ''gemini-2.0-flash''),
               (''usage'', JObj [(''total_tokens'', JNum 42)])]))"
    by (simp add: run_defs sample_defs world_ok_def)
  from success_output_shape [OF h1 h2 h3 h4] show ?thesis by (rule conjunct1)
qed

text \<open>
  Claim C5. In a run that prints its result, an item of \<^verbatim>\<open>result.extractions\<close> without
  a \<^verbatim>\<open>citations\<close> attribute gets an entry whose \<^verbatim>\<open>citations\<close> field is there and is
  the empty array (not \<^verbatim>\<open>null\<close>).
\<close>

theorem missing_citations_give_empty_array:
  assumes "calls (script w) = [call]" and "lx_extract w call = Inr result"
    and "getattr result ''extractions'' = Inr seq" and "py_iter seq = Inr items"
    and "stdout (script w) =
           [JsonText ind (JObj [(''extractions'', JArr js), (''model'', jm), (''usage'', ju)])]"
    and "i < length items"
    and "\<not> hasattr (items ! i) ''citations''"
  shows "i < length js \<and>
         (\<exists>c t a. js ! i = JObj [(''class'', c), (''text'', t), (''attributes'', a),
                                 (''citations'', JArr [])])"
proof -
  from printed_entry [OF assms(1-6)] obtain entry where
    i: "i < length js" and e: "extraction_entry (items ! i) = Inr entry"
    and j: "encode entry = Inr (js ! i)"
    by blast
  from extraction_entry_Inr [OF e] obtain c t a cs where
    cs: "citations_of (items ! i) = Inr (PList cs)"
    and entry: "entry = PDict [(KStr ''class'', c), (KStr ''text'', t),
                               (KStr ''attributes'', a), (KStr ''citations'', PList cs)]"
    by blast
  from assms(7) cs have "cs = []"
    by (simp add: citations_of_def)
  with j entry have
    "encode (PDict [(KStr ''class'', c), (KStr ''text'', t),
                    (KStr ''attributes'', a), (KStr ''citations'', PList [])]) = Inr (js ! i)"
    by simp
  from encode_entry_Inr [OF this] have
    "\<exists>c t a. js ! i = JObj [(''class'', c), (''text'', t), (''attributes'', a),
                            (''citations'', JArr [])]"
    by auto
  with i show ?thesis by blast
qed

theorem missing_citations_give_empty_array_witness:
  "\<not> hasattr item_plain ''citations'' \<and>
   (\<exists>js jm ju. stdout (script world_ok) =
        [JsonText (Some 2) (JObj [(''extractions'', JArr js), (''model'', jm), (''usage'', ju)])] \<and>
      1 < length js \<and>
      (\<exists>c t a. js ! 1 = JObj [(''class'', c), (''text'', t), (''attributes'', a),
                              (''citations'', JArr [])]))"
proof -
  let ?call = "extract_kwargs \<lparr>args_file = ''missing.txt'', args_prompt = ''x'',
                                args_model = ''gemini-2.0-flash'', args_schema = None\<rparr>"
  let ?items = "[item_cited, item_plain, item_cited]"
  have h1: "calls (script world_ok) = [?call]"
    by (simp add: world_ok_run)
  have h2: "lx_extract world_ok ?call = Inr (sample_result ?items)"
    by (simp add: world_ok_def sample_world_def)
  have h3: "getattr (sample_result ?items) ''extractions'' = Inr (PList ?items)"
    by (simp add: sample_result_def)
  have h4: "py_iter (PList ?items) = Inr ?items"
    by simp
  obtain js jm ju where h5: "stdout (script world_ok) =
      [JsonText (Some 2) (JObj [(''extractions'', JArr js), (''model'', jm), (''usage'', ju)])]"
    by (simp add: world_ok_run)
  have h6: "1 < length ?items"
    by simp
  have h7: "\<not> hasattr (?items ! 1) ''citations''"
    by (simp add: hasattr_def item_plain_def sample_item_def)
  from missing_citations_give_empty_array [OF h1 h2 h3 h4 h5 h6 h7] h5 h7
  show ?thesis by auto
qed

text \<open>
  Claim C6, amended. In a run that prints its result, an item whose \<^verbatim>\<open>citations\<close>
  attribute holds \<open>N\<close> citations gets an entry whose \<^verbatim>\<open>citations\<close> array has \<open>N\<close>
  entries, the \<open>k\<close>-th an object with exactly the fields \<^verbatim>\<open>start\<close>, \<^verbatim>\<open>end\<close> and
  \<^verbatim>\<open>text\<close> holding the JSON forms of the \<open>k\<close>-th citation's three attributes as the
  library gave them; integers come out as the same integers. The script compares
  nothing: \<^verbatim>\<open>start\<close> is at most \<^verbatim>\<open>end\<close> in the output exactly when it is in the
  library's citation.
\<close>

theorem citations_serialized_in_order:
  assumes "calls (script w) = [call]" and "lx_extract w call = Inr result"
    and "getattr result ''extractions'' = Inr seq" and "py_iter seq = Inr items"
    and "stdout (script w) =
           [JsonText ind (JObj [(''extractions'', JArr js), (''model'', jm), (''usage'', ju)])]"
    and "i < length items"
    and "getattr (items ! i) ''citations'' = Inr cv" and "py_iter cv = Inr cits"
  shows "i < length js \<and>
         (\<exists>c t a jcs.
            js ! i = JObj [(''class'', c), (''text'', t), (''attributes'', a),
                           (''citations'', JArr jcs)] \<and>
            length jcs = length cits \<and>
            (\<forall>k<length cits. \<exists>s e x sj ej xj.
               getattr (cits ! k) ''start'' = Inr s \<and> getattr (cits ! k) ''end'' = Inr e \<and>
               getattr (cits ! k) ''text'' = Inr x \<and>
               encode s = Inr sj \<and> encode e = Inr ej \<and> encode x = Inr xj \<and>
               jcs ! k = JObj [(''start'', sj), (''end'', ej), (''text'', xj)] \<and>
               (\<forall>m n. s = PInt m \<and> e = PInt n \<longrightarrow> sj = JNum m \<and> ej = JNum n)))"
proof -
  from printed_entry [OF assms(1-6)] obtain entry where
    i: "i < length js" and e: "extraction_entry (items ! i) = Inr entry"
    and j: "encode entry = Inr (js ! i)"
    by blast
  from extraction_entry_Inr [OF e] obtain c t a cs where
    cs: "citations_of (items ! i) = Inr (PList cs)"
    and entry: "entry = PDict [(KStr ''class'', c), (KStr ''text'', t),
                               (KStr ''attributes'', a), (KStr ''citations'', PList cs)]"
    by blast
  from assms(7,8) cs have comp: "comprehension citation_entry cits = Inr cs"
    by (simp add: citations_of_def hasattr_def split: sum.splits)
  from j entry encode_entry_Inr obtain jc jt ja jcs where
    enc: "encode_list cs = Inr jcs"
    and shape: "js ! i = JObj [(''class'', jc), (''text'', jt), (''attributes'', ja),
                               (''citations'', JArr jcs)]"
    by blast
  from encoded_citations [OF comp enc] have len: "length jcs = length cits"
    and each: "\<forall>k<length cits. \<exists>s e x sj ej xj.
            getattr (cits ! k) ''start'' = Inr s \<and> getattr (cits ! k) ''end'' = Inr e \<and>
            getattr (cits ! k) ''text'' = Inr x \<and>
            encode s = Inr sj \<and> encode e = Inr ej \<and> encode x = Inr xj \<and>
            jcs ! k = JObj [(''start'', sj), (''end'', ej), (''text'', xj)]"
    by blast+
  have "\<exists>s e x sj ej xj.
               getattr (cits ! k) ''start'' = Inr s \<and> getattr (cits ! k) ''end'' = Inr e \<and>
               getattr (cits ! k) ''text'' = Inr x \<and>
               encode s = Inr sj \<and> encode e = Inr ej \<and> encode x = Inr xj \<and>
               jcs ! k = JObj [(''start'', sj), (''end'', ej), (''text'', xj)] \<and>
               (\<forall>m n. s = PInt m \<and> e = PInt n \<longrightarrow> sj = JNum m \<and> ej = JNum n)"
    if "k < length cits" for k
  proof -
    from each that obtain s e x sj ej xj where
      p: "getattr (cits ! k) ''start'' = Inr s" "getattr (cits ! k) ''end'' = Inr e"
        "getattr (cits ! k) ''text'' = Inr x"
        "encode s = Inr sj" "encode e = Inr ej" "encode x = Inr xj"
        "jcs ! k = JObj [(''start'', sj), (''end'', ej), (''text'', xj)]"
      by blast
    from p(4,5) have "\<forall>m n. s = PInt m \<and> e = PInt n \<longrightarrow> sj = JNum m \<and> ej = JNum n"
      by auto
    with p show ?thesis by blast
  qed
  with i shape len show ?thesis by blast
qed

theorem citations_serialized_in_order_witness:
  "\<exists>js jm ju c t a.
      stdout (script world_ok) =
        [JsonText (Some 2) (JObj [(''extractions'', JArr js), (''model'', jm), (''usage'', ju)])] \<and>
      js ! 0 = JObj [(''class'', c), (''text'', t), (''attributes'', a),
                     (''citations'', JArr [JObj [(''start'', JNum 0), (''end'', JNum 5),
                                                 (''text'', JStr ''Alice'')]])]"
proof -
  let ?call = "extract_kwargs \<lparr>args_file = ''missing.txt'', args_prompt = ''x'',
                                args_model = ''gemini-2.0-flash'', args_schema = None\<rparr>"
  let ?items = "[item_cited, item_plain, item_cited]"
  let ?cits = "[sample_citation 0 5]"
  have h1: "calls (script world_ok) = [?call]"
    by (simp add: world_ok_run)
  have h2: "lx_extract world_ok ?call = Inr (sample_result ?items)"
    by (simp add: world_ok_def sample_world_def)
  have h3: "getattr (sample_result ?items) ''extractions'' = Inr (PList ?items)"
    by (simp add: sample_result_def)
  have h4: "py_iter (PList ?items) = Inr ?items"
    by simp
  obtain js jm ju where h5: "stdout (script world_ok) =
      [JsonText (Some 2) (JObj [(''extractions'', JArr js), (''model'', jm), (''usage'', ju)])]"
    by (simp add: world_ok_run)
  have h6: "0 < length ?items"
    by simp
  have h7: "getattr (?items ! 0) ''citations'' = Inr (PList ?cits)"
    by (simp add: item_cited_def sample_item_def)
  have h8: "py_iter (PList ?cits) = Inr ?cits"
    by simp
  from citations_serialized_in_order [OF h1 h2 h3 h4 h5 h6 h7 h8]
  obtain c t a jcs where
    shape: "js ! 0 = JObj [(''class'', c), (''text'', t), (''attributes'', a),
                           (''citations'', JArr jcs)]"
    and len: "length jcs = length ?cits"
    and each: "\<forall>k<length ?cits. \<exists>s e x sj ej xj.
               getattr (?cits ! k) ''start'' = Inr s \<and> getattr (?cits ! k) ''end'' = Inr e \<and>
               getattr (?cits ! k) ''text'' = Inr x \<and>
               encode s = Inr sj \<and> encode e = Inr ej \<and> encode x = Inr xj \<and>
               jcs ! k = JObj [(''start'', sj), (''end'', ej), (''text'', xj)] \<and>
               (\<forall>m n. s = PInt m \<and> e = PInt n \<longrightarrow> sj = JNum m \<and> ej = JNum n)"
    by blast
  from each have "jcs ! 0 = JObj [(''start'', JNum 0), (''end'', JNum 5), (''text'', JStr ''Alice'')]"
    by (auto simp: sample_citation_def)
  moreover from len obtain j0 where "jcs = [j0]"
    by (cases jcs) auto
  ultimately have "jcs = [JObj [(''start'', JNum 0), (''end'', JNum 5), (''text'', JStr ''Alice'')]]"
    by simp
  with shape h5 show ?thesis by blast
qed

text \<open>
  The library returns one citation with \<^verbatim>\<open>start = 5\<close> and \<^verbatim>\<open>end = 3\<close>: the run succeeds
  and prints them as they are.
\<close>

theorem citations_start_le_end_counterexample:
  "stdout (script world_reversed) =
     [JsonText (Some 2)
        (JObj
           [(''extractions'',
             JArr
               [JObj [(''class'', JStr ''entity''), (''text'', JStr ''Alice''),
                      (''attributes'', JObj [(''type'', JStr ''person'')]),
                      (''citations'',
                       JArr [JObj [(''start'', JNum 5), (''end'', JNum 3),
                                   (''text'', JStr ''Alice'')]])]]),
            (''model'', JStr ''gemini-2.0-flash''),
            (''usage'', JObj [(''total_tokens'', JNum 42)])])] \<and>
   exit_status (script world_reversed) = 0 \<and> \<not> (5::int) \<le> 3"
  by (simp add: run_defs sample_defs world_reversed_def)

subsection \<open>Failures\<close>



text \<open>
  Claim C10. When an item of \<^verbatim>\<open>result.extractions\<close> has a \<^verbatim>\<open>citations\<close> attribute
  whose value cannot be iterated (\<^verbatim>\<open>None\<close>, for one), no empty array is put in its
  place: the comprehension raises the \<^verbatim>\<open>TypeError\<close> of the iteration, the construction
  of \<^verbatim>\<open>output\<close> raises, and the run ends in the handler with a JSON error object on
  standard error, status 1 and nothing on standard output.
\<close>

theorem non_iterable_citations_fail:
  assumes "lx_importable w" and "dotenv_importable w"
    and "parse_args (command_line w) = Inr args"
    and "lx_extract w (extract_kwargs args) = Inr result"
    and "getattr result ''extractions'' = Inr seq" and "py_iter seq = Inr items"
    and "e \<in> set items"
    and "getattr e ''citations'' = Inr v" and "py_iter v = Inl x"
  shows "citations_of e = Inl x \<and>
         (\<exists>x'. build_output result = Inl x') \<and>
         stdout (script w) = [] \<and> exit_status (script w) = 1 \<and>
         (\<exists>msg ty. stderr (script w) =
                      [JsonText None (JObj [(''error'', JStr msg), (''type'', JStr ty)])])"
proof -
  have c: "citations_of e = Inl x"
    using assms(8,9) by (rule citations_of_not_iterable)
  from extraction_entry_citations_raise [OF c] obtain x1 where
    e: "extraction_entry e = Inl x1" ..
  from comprehension_raises [of e items extraction_entry x1, OF assms(7) e] obtain x2 where
    "comprehension extraction_entry items = Inl x2" ..
  with assms(5,6) have b: "build_output result = Inl x2"
    by (simp add: build_output_def)
  with assms(4) have "try_body w args = Inl x2"
    by (simp add: try_body_def)
  with assms(1-3) have "script w = except_handler [extract_kwargs args] x2"
    by (simp add: script_def main_def)
  then have "stdout (script w) = []" "exit_status (script w) = 1"
    "stderr (script w) =
       [JsonText None (JObj [(''error'', JStr (exc_msg x2)), (''type'', JStr (exc_type x2))])]"
    by (simp_all add: except_handler_eq)
  with b c show ?thesis by blast
qed

theorem non_iterable_citations_fail_witness:
  "citations_of item_none = Inl (not_iterable PNone) \<and>
   (\<exists>x'. build_output (sample_result [item_plain, item_none]) = Inl x') \<and>
   stdout (script world_none) = [] \<and> exit_status (script world_none) = 1 \<and>
   (\<exists>msg ty. stderr (script world_none) =
                [JsonText None (JObj [(''error'', JStr msg), (''type'', JStr ty)])])"
proof -
  let ?args = "\<lparr>args_file = ''missing.txt'', args_prompt = ''x'',
                 args_model = ''gemini-2.0-flash'', args_schema = None\<rparr>"
  have h1: "lx_importable world_none" and h2: "dotenv_importable world_none"
    and h3: "parse_args (command_line world_none) = Inr ?args"
    by (simp_all add: world_none_def sample_world_def sample_options_def parse_args_def)
  have h4: "lx_extract world_none (extract_kwargs ?args) =
              Inr (sample_result [item_plain, item_none])"
    by (simp add: world_none_def sample_world_def)
  have h5: "getattr (sample_result [item_plain, item_none]) ''extractions'' =
              Inr (PList [item_plain, item_none])"
    by (simp add: sample_result_def)
  have h6: "py_iter (PList [item_plain, item_none]) = Inr [item_plain, item_none]"
    by simp
  have h7: "item_none \<in> set [item_plain, item_none]"
    by simp
  have h8: "getattr item_none ''citations'' = Inr PNone"
    by (simp add: item_none_def sample_item_def)
  have h9: "py_iter PNone = Inl (not_iterable PNone)"
    by simp
  show ?thesis
    by (rule non_iterable_citations_fail [OF h1 h2 h3 h4 h5 h6 h7 h8 h9])
qed

text \<open>
  Claim C7. When \<^verbatim>\<open>import langextract\<close> fails, the process exits with status 1 with
  one JSON object on standard error whose \<^verbatim>\<open>error\<close> tells the operator to run
  \<^verbatim>\<open>pip install -r services/python/requirements.txt\<close>; this happens before the
  arguments are parsed, so the outcome is the same for every command line (a request for
  help or a malformed one included).
\<close>

theorem missing_library_reported_before_parsing:
  assumes "\<not> lx_importable w"
  shows "script w =
           \<lparr>calls = [], stdout = [],
            stderr = [JsonText None
                        (JObj [(''error'',
                                JStr (''langextract not installed. Please run '' @
                                      quoted ''pip install -r services/python/requirements.txt''))])],
            exit_status = 1\<rparr> \<and>
         (\<forall>cl. script (w\<lparr>command_line := cl\<rparr>) = script w)"
  using assms by (simp add: script_def json_dumps_def)

theorem missing_library_reported_before_parsing_witness:
  "\<not> lx_importable world_no_library \<and>
   script (world_no_library\<lparr>command_line := Help\<rparr>) =
     \<lparr>calls = [], stdout = [],
      stderr = [JsonText None
                  (JObj [(''error'',
                          JStr (''langextract not installed. Please run '' @
                                quoted ''pip install -r services/python/requirements.txt''))])],
      exit_status = 1\<rparr>"
proof -
  have h: "\<not> lx_importable world_no_library"
    by (simp add: world_no_library_def sample_world_def)
  from missing_library_reported_before_parsing [OF h] have
    "script world_no_library =
       \<lparr>calls = [], stdout = [],
        stderr = [JsonText None
                    (JObj [(''error'',
                            JStr (''langextract not installed. Please run '' @
                                  quoted ''pip install -r services/python/requirements.txt''))])],
        exit_status = 1\<rparr>"
    and "\<forall>cl. script (world_no_library\<lparr>command_line := cl\<rparr>) = script world_no_library"
    by blast+
  with h show ?thesis by simp
qed




subsection \<open>The call into the library\<close>





end
